theory Spec2Isabelle
  imports Complex_Main "HOL-Library.Word" "HOL-Library.Signed_Division"
begin

section \<open>The MPC controller of mpc\_controller.cpp\<close>

text \<open>
  A shallow embedding of \<^verbatim>\<open>MpcController\<close> (mpc\_controller.cpp). The class header, the
  controller base class, \<^verbatim>\<open>motion_common\<close>, \<^verbatim>\<open>time_utils\<close> and the generated ACADO solver are
  not part of the sources at hand. What the code takes from them enters the model as a
  parameter (the build-time constants \<^verbatim>\<open>HORIZON = ACADO_N\<close> and \<^verbatim>\<open>solver_time_step\<close>, the
  solver's two phases, the member functions that are only called here), or is modelled from
  the specification where a claim needs it, and is marked so.
\<close>

subsection \<open>Numbers\<close>

text \<open>
  \<^verbatim>\<open>real_t\<close> (\<^verbatim>\<open>AcadoReal\<close>) and \<^verbatim>\<open>Real\<close> are IEEE floating point types. The model keeps
  what the code observes of them, whether a value is finite (\<^verbatim>\<open>std::isfinite\<close>), and
  computes on finite values exactly: rounding, and overflow to infinity in arithmetic or in
  \<^verbatim>\<open>static_cast<Real>\<close>, are not modelled. \<open>Infinite True\<close> is \<open>+inf\<close>,
  \<open>Infinite False\<close> is \<open>-inf\<close>.
\<close>

datatype real_t = Finite real | Infinite bool | NaN

type_synonym AcadoReal = real_t
type_synonym Real = real_t

fun isfinite :: "real_t \<Rightarrow> bool" where
  "isfinite (Finite v) = True"
| "isfinite (Infinite s) = False"
| "isfinite NaN = False"

fun fneg :: "real_t \<Rightarrow> real_t" where
  "fneg (Finite a) = Finite (- a)"
| "fneg (Infinite s) = Infinite (\<not> s)"
| "fneg NaN = NaN"

fun fadd :: "real_t \<Rightarrow> real_t \<Rightarrow> real_t" where
  "fadd (Finite a) (Finite b) = Finite (a + b)"
| "fadd (Finite a) (Infinite s) = Infinite s"
| "fadd (Infinite s) (Finite b) = Infinite s"
| "fadd (Infinite s) (Infinite r) = (if s = r then Infinite s else NaN)"
| "fadd NaN b = NaN"
| "fadd a NaN = NaN"

fun fmul :: "real_t \<Rightarrow> real_t \<Rightarrow> real_t" where
  "fmul (Finite a) (Finite b) = Finite (a * b)"
| "fmul (Finite a) (Infinite s) = (if a = 0 then NaN else Infinite (s = (0 < a)))"
| "fmul (Infinite s) (Finite b) = (if b = 0 then NaN else Infinite (s = (0 < b)))"
| "fmul (Infinite s) (Infinite r) = Infinite (s = r)"
| "fmul NaN b = NaN"
| "fmul a NaN = NaN"

text \<open>
  Modelled from the spec: \<^verbatim>\<open>motion_common::interpolate(a, b, t)\<close> is not in the sources. The
  specification (4.5) has the outputs "linearly interpolated between the control values at
  \<open>count\<close> and \<open>count + 1\<close>" with interpolation parameter \<open>t\<close>: the value \<open>a + t * (b - a)\<close>.
\<close>

definition interpolate :: "Real \<Rightarrow> Real \<Rightarrow> Real \<Rightarrow> Real" where
  "interpolate a b t = fadd a (fmul t (fadd b (fneg a)))"

text \<open>
  Integers. \<^verbatim>\<open>std::size_t\<close> and \<^verbatim>\<open>Index\<close> are unsigned 64-bit words: arithmetic wraps
  and the order is the unsigned one. \<^verbatim>\<open>Index\<close> is declared in a header that is not at
  hand; the code runs it against \<^verbatim>\<open>points.size()\<close>, and the model takes it at that
  width. The tick count of a \<^verbatim>\<open>std::chrono::nanoseconds\<close> is a signed 64-bit integer,
  modelled as an \<open>int\<close>: signed overflow is undefined in C++, so theorems assume the values
  in range. A conversion to the unsigned type is \<open>word_of_int\<close>, the conversion back is
  \<open>sint\<close>, and integer division of tick counts truncates towards zero (\<open>sdiv\<close>).
\<close>

type_synonym size_t = "64 word"
type_synonym Index = "64 word"
type_synonym nanoseconds = int

definition in_int64 :: "int \<Rightarrow> bool" where
  "in_int64 v = (- (2 ^ 63) \<le> v \<and> v < 2 ^ 63)"

subsection \<open>Errors\<close>

text \<open>
  Every \<^verbatim>\<open>throw\<close> of the file is a value: the two of \<^verbatim>\<open>solve\<close> carry the solver's status
  code, \<open>Interpolation_not_finite\<close> is the \<^verbatim>\<open>runtime_error\<close> of \<^verbatim>\<open>interpolated_command\<close>.
  \<open>Helper_exception\<close> wraps whatever a member function that is not in the sources throws.
  \<open>Out_of_bounds\<close> marks an array access outside the array: undefined behaviour in C++,
  not an exception.
\<close>

datatype error =
    Solver_preparation_error int
  | Solver_error int
  | Interpolation_not_finite
  | Helper_exception string
  | Out_of_bounds

definition read_at :: "'a list \<Rightarrow> int \<Rightarrow> error + 'a" where
  "read_at xs i = (if 0 \<le> i \<and> i < int (length xs) then Inr (xs ! nat i) else Inl Out_of_bounds)"

subsection \<open>The solver's variables and the command\<close>

text \<open>
  \<^verbatim>\<open>acadoVariables\<close>: the arrays this file reads and writes (\<open>var_x\<close> is
  \<^verbatim>\<open>acadoVariables.x\<close>, and so on), row major, and the rest of the solver's memory
  (weights, references, \<^verbatim>\<open>acadoWorkspace\<close>) as one opaque field.
\<close>

record 'w ACADOvariables =
  var_x :: "AcadoReal list"
  var_u :: "AcadoReal list"
  var_od :: "AcadoReal list"
  var_x0 :: "AcadoReal list"
  lbValues :: "AcadoReal list"
  ubValues :: "AcadoReal list"
  lbAValues :: "AcadoReal list"
  ubAValues :: "AcadoReal list"
  solver_rest :: 'w

record Command =
  long_accel_mps2 :: Real
  front_wheel_angle_rad :: Real
  velocity_mps :: Real
  rear_wheel_angle_rad :: Real

definition NX :: size_t where "NX = 4"
definition IDX_X :: nat where "IDX_X = 0"
definition IDX_Y :: nat where "IDX_Y = 1"
definition IDX_HEADING :: nat where "IDX_HEADING = 2"
definition IDX_VEL_LONG :: nat where "IDX_VEL_LONG = 3"
definition ACADO_NU :: int where "ACADO_NU = 2"
definition NU :: size_t where "NU = 2"
definition IDX_JERK :: nat where "IDX_JERK = 0"
definition IDX_WHEEL_ANGLE_RATE :: nat where "IDX_WHEEL_ANGLE_RATE = 1"

subsection \<open>Configuration, trajectory and state\<close>

text \<open>
  The fields of \<^verbatim>\<open>Config\<close>, \<^verbatim>\<open>Trajectory\<close> and \<^verbatim>\<open>State\<close> that this file reads. A time
  stamp or duration is the tick count \<^verbatim>\<open>time_utils::from_message\<close> returns for it, in
  nanoseconds. The heading's representation, the optimisation parameters and the behaviour
  configuration are opaque.
\<close>

record Limit =
  limit_min :: Real
  limit_max :: Real

record LimitsConfig =
  longitudinal_velocity :: Limit
  acceleration :: Limit
  steer_angle :: Limit

record VehicleConfig =
  length_cg_front_axel :: Real
  length_cg_rear_axel :: Real

record ('o, 'b) Config =
  limits :: LimitsConfig
  vehicle_param :: VehicleConfig
  behavior :: 'b
  optimization_param :: 'o
  sample_period_tolerance :: nanoseconds
  control_lookahead_duration :: nanoseconds
  do_interpolate :: bool

record 'h TrajectoryPoint =
  time_from_start :: nanoseconds
  point_x :: Real
  point_y :: Real
  heading :: 'h
  longitudinal_velocity_mps :: Real

record 'h Trajectory =
  header_stamp :: nanoseconds
  points :: "'h TrajectoryPoint list"

record 'h State =
  state_header_stamp :: nanoseconds
  state_state :: "'h TrajectoryPoint"

subsection \<open>interpolated\_command\<close>

text \<open>
  The locals of \<^verbatim>\<open>interpolated_command\<close>, one definition each. \<open>HORIZON\<close> and \<open>step\<close>
  (\<^verbatim>\<open>solver_time_step\<close>) are parameters; \<open>dt0\<close> is the initial value of \<^verbatim>\<open>dt_\<close>,
  \<^verbatim>\<open>get_config().control_lookahead_duration() - x0_time_offset\<close>.

  \<^verbatim>\<open>max_dt = step * (HORIZON - 1U)\<close> multiplies a \<^verbatim>\<open>nanoseconds\<close> by a \<^verbatim>\<open>size_t\<close>: the
  result is a duration whose tick count has the common type of the two, the unsigned one.
  The comparison \<^verbatim>\<open>dt_ > max_dt\<close> therefore converts \<^verbatim>\<open>dt_\<close> to that unsigned type as
  well, so a negative \<^verbatim>\<open>dt_\<close> compares as a large value and is replaced by \<^verbatim>\<open>max_dt\<close>.
  \<^verbatim>\<open>std::min\<close> compares two signed values. \<open>interp_t\<close> is the quotient of the two float
  durations.
\<close>

definition max_dt :: "size_t \<Rightarrow> nanoseconds \<Rightarrow> 64 word" where
  "max_dt HORIZON step = word_of_int step * (HORIZON - 1)"

definition clamped_dt :: "size_t \<Rightarrow> nanoseconds \<Rightarrow> nanoseconds \<Rightarrow> nanoseconds" where
  "clamped_dt HORIZON step dt0 =
     (if (word_of_int dt0 :: 64 word) > max_dt HORIZON step then sint (max_dt HORIZON step) else dt0)"

definition interp_count :: "size_t \<Rightarrow> nanoseconds \<Rightarrow> nanoseconds \<Rightarrow> int" where
  "interp_count HORIZON step dt0 = min (clamped_dt HORIZON step dt0 sdiv step) (sint (HORIZON - 2))"

definition interp_dt :: "size_t \<Rightarrow> nanoseconds \<Rightarrow> nanoseconds \<Rightarrow> nanoseconds" where
  "interp_dt HORIZON step dt0 = clamped_dt HORIZON step dt0 - interp_count HORIZON step dt0 * step"

definition fractional :: "size_t \<Rightarrow> nanoseconds \<Rightarrow> nanoseconds \<Rightarrow> real" where
  "fractional HORIZON step dt0 = real_of_int (interp_dt HORIZON step dt0) / real_of_int step"

definition interp_t :: "size_t \<Rightarrow> nanoseconds \<Rightarrow> nanoseconds \<Rightarrow> Real" where
  "interp_t HORIZON step dt0 = Finite (fractional HORIZON step dt0)"

text \<open>
  The index of the velocity read: \<^verbatim>\<open>(idx * NX) + IDX_VEL_LONG\<close> with
  \<^verbatim>\<open>idx = count * ACADO_NU\<close>, the control array's offset, computed in \<^verbatim>\<open>size_t\<close>.
\<close>

definition velocity_index :: "int \<Rightarrow> int" where
  "velocity_index count =
     uint ((word_of_int (count * ACADO_NU) :: size_t) * NX + word_of_nat IDX_VEL_LONG)"

definition interpolated_command ::
  "size_t \<Rightarrow> nanoseconds \<Rightarrow> ('o, 'b) Config \<Rightarrow> 'w ACADOvariables \<Rightarrow> nanoseconds \<Rightarrow> error + Command" where
  "interpolated_command HORIZON step cfg vars offset =
     (let dt0 = control_lookahead_duration cfg - offset;
          count = interp_count HORIZON step dt0;
          t = interp_t HORIZON step dt0;
          idx = count * ACADO_NU;
          jdx = (count + 1) * ACADO_NU
      in case read_at (var_u vars) (idx + int IDX_JERK) of Inl e \<Rightarrow> Inl e
         | Inr longitudinal0 \<Rightarrow>
       (case read_at (var_u vars) (idx + int IDX_WHEEL_ANGLE_RATE) of Inl e \<Rightarrow> Inl e
         | Inr lateral0 \<Rightarrow>
       (case read_at (var_u vars) (jdx + int IDX_JERK) of Inl e \<Rightarrow> Inl e
         | Inr longitudinal1 \<Rightarrow>
       (case read_at (var_u vars) (jdx + int IDX_WHEEL_ANGLE_RATE) of Inl e \<Rightarrow> Inl e
         | Inr lateral1 \<Rightarrow>
       (case read_at (var_x vars) (velocity_index count) of Inl e \<Rightarrow> Inl e
         | Inr velocity \<Rightarrow>
       (let ret = \<lparr> long_accel_mps2 = interpolate longitudinal0 longitudinal1 t,
                     front_wheel_angle_rad = interpolate lateral0 lateral1 t,
                     velocity_mps = velocity,
                     rear_wheel_angle_rad = Finite 0 \<rparr>
        in if \<not> isfinite (long_accel_mps2 ret) \<or> \<not> isfinite (front_wheel_angle_rad ret)
           then Inl Interpolation_not_finite
           else Inr ret))))))"

subsection \<open>The controller's state and the functions it calls\<close>

text \<open>
  The state a cycle works on: the members of \<^verbatim>\<open>MpcController\<close>, what the file uses of its
  base class (the reference trajectory behind \<^verbatim>\<open>get_reference_trajectory()\<close>, the behaviour
  configuration \<^verbatim>\<open>set_base_config\<close> receives), and the global \<^verbatim>\<open>acadoVariables\<close>.
\<close>

record ('h, 'o, 'b, 'w) MpcController =
  m_config :: "('o, 'b) Config"
  m_last_reference_index :: Index
  base_behavior :: 'b
  reference_trajectory :: "'h Trajectory"
  acadoVariables :: "'w ACADOvariables"

text \<open>
  The member functions and solver entry points that are called here and defined elsewhere
  are parameters. One of them reads the controller and leaves the solver's variables in a
  new state; it returns, or throws (\<open>Inl\<close> with the exception's message). The solver's two
  phases return their status code. \<^verbatim>\<open>predict\<close> and \<^verbatim>\<open>to_angle\<close> are taken as functions
  that return.
\<close>

type_synonym ('h, 'o, 'b, 'w, 'a) member =
  "('h, 'o, 'b, 'w) MpcController \<Rightarrow> (string + 'a) \<times> 'w ACADOvariables"

record ('h, 'o, 'b, 'w) externals =
  advance_problem :: "Index \<Rightarrow> ('h, 'o, 'b, 'w, unit) member"
  backfill_reference :: "Index \<Rightarrow> ('h, 'o, 'b, 'w, unit) member"
  apply_terminal_weights :: "Index \<Rightarrow> ('h, 'o, 'b, 'w, unit) member"
  zero_nominal_weights :: "Index \<Rightarrow> Index \<Rightarrow> ('h, 'o, 'b, 'w, unit) member"
  zero_terminal_weights :: "('h, 'o, 'b, 'w, unit) member"
  ensure_reference_consistency :: "size_t \<Rightarrow> ('h, 'o, 'b, 'w, bool) member"
  predict :: "('h, 'o, 'b, 'w) MpcController \<Rightarrow> 'h TrajectoryPoint \<Rightarrow> nanoseconds \<Rightarrow> 'h TrajectoryPoint"
  to_angle :: "'h \<Rightarrow> Real"
  apply_weights :: "'o \<Rightarrow> 'w \<Rightarrow> 'w"
  acado_initializeNodesByForwardSimulation :: "'w ACADOvariables \<Rightarrow> 'w ACADOvariables"
  acado_preparationStep :: "'w ACADOvariables \<Rightarrow> int \<times> 'w ACADOvariables"
  acado_feedbackStep :: "'w ACADOvariables \<Rightarrow> int \<times> 'w ACADOvariables"

text \<open>
  A function of the controller returns a value or an error, and the state it leaves: an
  exception does not undo what was written before it. \<open>bindE\<close> runs the next statement
  when the first did not throw; \<open>call\<close> runs one of the parameters.
\<close>

type_synonym ('s, 'a) action = "'s \<Rightarrow> (error + 'a) \<times> 's"

definition bindE :: "('s, 'a) action \<Rightarrow> ('a \<Rightarrow> ('s, 'b) action) \<Rightarrow> ('s, 'b) action" where
  "bindE m f s = (case m s of (Inl e, s') \<Rightarrow> (Inl e, s') | (Inr a, s') \<Rightarrow> f a s')"

definition call ::
  "('h, 'o, 'b, 'w, 'a) member \<Rightarrow> (('h, 'o, 'b, 'w) MpcController, 'a) action" where
  "call f s =
     (case f s of
        (Inl msg, v) \<Rightarrow> (Inl (Helper_exception msg), s\<lparr>acadoVariables := v\<rparr>)
      | (Inr a, v) \<Rightarrow> (Inr a, s\<lparr>acadoVariables := v\<rparr>))"

subsection \<open>update\_references\<close>

definition update_references ::
  "('h, 'o, 'b, 'w) externals \<Rightarrow> size_t \<Rightarrow> Index \<Rightarrow> (('h, 'o, 'b, 'w) MpcController, bool) action" where
  "update_references ext HORIZON current_idx s =
     (let cold_start = (0 = current_idx) in
      if \<not> cold_start then
        (let advance_idx = current_idx - m_last_reference_index s
         in bindE (call (advance_problem ext advance_idx)) (\<lambda>_.
            bindE (\<lambda>s1.
              (let max_pts = (word_of_nat (length (points (reference_trajectory s1))) :: size_t)
               in if max_pts - current_idx \<ge> HORIZON
                  then call (backfill_reference ext advance_idx) s1
                  else (let receded_horizon = max_pts - current_idx
                        in bindE (call (apply_terminal_weights ext (receded_horizon - 1))) (\<lambda>_.
                           bindE (call (zero_nominal_weights ext receded_horizon
                                          (receded_horizon + advance_idx))) (\<lambda>_.
                           call (zero_terminal_weights ext))) s1))) (\<lambda>_ s2.
            (Inr cold_start, s2\<lparr>m_last_reference_index := current_idx\<rparr>))) s)
      else (Inr cold_start, s))"

subsection \<open>solve, initial\_conditions, x0\_time\_offset\<close>

definition solve ::
  "('h, 'o, 'b, 'w) externals \<Rightarrow> (('h, 'o, 'b, 'w) MpcController, unit) action" where
  "solve ext s =
     (case acado_preparationStep ext (acadoVariables s) of (prep_ret, v1) \<Rightarrow>
        if 0 \<noteq> prep_ret then (Inl (Solver_preparation_error prep_ret), s\<lparr>acadoVariables := v1\<rparr>)
        else (case acado_feedbackStep ext v1 of (solve_ret, v2) \<Rightarrow>
          if 0 \<noteq> solve_ret then (Inl (Solver_error solve_ret), s\<lparr>acadoVariables := v2\<rparr>)
          else (Inr (), s\<lparr>acadoVariables := v2\<rparr>)))"

text \<open>
  The writes of \<^verbatim>\<open>initial_conditions\<close> go to the constant indices 0 to 3 of \<^verbatim>\<open>x0\<close> and
  \<^verbatim>\<open>x\<close>; the arrays are taken to hold at least one state vector.
\<close>

definition initial_conditions ::
  "('h, 'o, 'b, 'w) externals \<Rightarrow> 'h TrajectoryPoint \<Rightarrow>
   ('h, 'o, 'b, 'w) MpcController \<Rightarrow> ('h, 'o, 'b, 'w) MpcController" where
  "initial_conditions ext pt s =
     (let v = acadoVariables s;
          x0' = (var_x0 v)[IDX_X := point_x pt, IDX_Y := point_y pt,
                           IDX_HEADING := to_angle ext (heading pt),
                           IDX_VEL_LONG := longitudinal_velocity_mps pt];
          x' = (var_x v)[IDX_X := x0' ! IDX_X, IDX_Y := x0' ! IDX_Y,
                         IDX_HEADING := x0' ! IDX_HEADING, IDX_VEL_LONG := x0' ! IDX_VEL_LONG]
      in s\<lparr>acadoVariables := v\<lparr>var_x0 := x0', var_x := x'\<rparr>\<rparr>)"

definition x0_time_offset ::
  "'h State \<Rightarrow> Index \<Rightarrow> ('h, 'o, 'b, 'w) MpcController \<Rightarrow> error + nanoseconds" where
  "x0_time_offset st idx s =
     (let traj = reference_trajectory s
      in case read_at (points traj) (uint idx) of
           Inl e \<Rightarrow> Inl e
         | Inr pt \<Rightarrow>
            (let t0 = header_stamp traj + time_from_start pt;
                 dt = t0 - state_header_stamp st
             in Inr dt))"

subsection \<open>compute\_command\_impl\<close>

text \<open>
  \<open>current_idx\<close> is what \<^verbatim>\<open>get_current_state_temporal_index()\<close> returns. \<open>fill_n\<close> is the
  \<^verbatim>\<open>std::fill\<close> over the first \<open>n\<close> elements of an array.
\<close>

definition fill_n :: "nat \<Rightarrow> 'a \<Rightarrow> 'a list \<Rightarrow> 'a list" where
  "fill_n n v xs = replicate (min n (length xs)) v @ drop n xs"

definition compute_command_impl ::
  "('h, 'o, 'b, 'w) externals \<Rightarrow> size_t \<Rightarrow> nanoseconds \<Rightarrow> Index \<Rightarrow> 'h State \<Rightarrow>
   (('h, 'o, 'b, 'w) MpcController, Command) action" where
  "compute_command_impl ext HORIZON step current_idx st =
     bindE (update_references ext HORIZON current_idx) (\<lambda>cold_start0.
     bindE (\<lambda>s. (x0_time_offset st current_idx s, s)) (\<lambda>dt.
     bindE (\<lambda>s. (Inr (), initial_conditions ext (predict ext s (state_state st) dt) s)) (\<lambda>_.
     bindE (\<lambda>s.
       (let max_pts = (word_of_nat (length (points (reference_trajectory s))) :: size_t);
            horizon = min (max_pts - current_idx) HORIZON
        in call (ensure_reference_consistency ext horizon) s)) (\<lambda>consistency.
     (let cold_start = consistency \<or> cold_start0 in
     bindE (\<lambda>s.
       if cold_start
       then (Inr (), s\<lparr>acadoVariables :=
               acado_initializeNodesByForwardSimulation ext
                 ((acadoVariables s)\<lparr>var_u :=
                    fill_n (unat (HORIZON * NU)) (Finite 0) (var_u (acadoVariables s))\<rparr>)\<rparr>)
       else (Inr (), s)) (\<lambda>_.
     bindE (solve ext) (\<lambda>_ s.
       (interpolated_command HORIZON step (m_config s) (acadoVariables s) dt, s))))))))"

subsection \<open>check\_new\_trajectory\<close>

text \<open>
  Modelled from the spec: \<^verbatim>\<open>motion_common::heading_ok\<close> is not in the sources. By the
  specification (4.6) a trajectory is rejected "if any heading value is not a valid
  normalized 2D orientation encoding": \<open>heading_ok\<close> holds when every point's heading is
  valid, and what makes one heading valid is the parameter \<open>valid_heading\<close>.
\<close>

definition heading_ok :: "('h \<Rightarrow> bool) \<Rightarrow> 'h Trajectory \<Rightarrow> bool" where
  "heading_ok valid_heading trajectory = list_all valid_heading (map heading (points trajectory))"

text \<open>
  The loop of \<^verbatim>\<open>check_new_trajectory\<close>, over the points that remain, \<open>idx\<close> counting
  them. \<^verbatim>\<open>idx * solver_time_step\<close> multiplies an \<^verbatim>\<open>Index\<close> by a \<^verbatim>\<open>nanoseconds\<close>, so the
  tick count of \<^verbatim>\<open>ref\<close>, and with it of \<^verbatim>\<open>ub\<close> and \<^verbatim>\<open>lb\<close>, has the unsigned type:
  the sums and the difference wrap, and the two comparisons convert \<^verbatim>\<open>t\<close> to the unsigned
  type.
\<close>

fun check_points ::
  "nanoseconds \<Rightarrow> nanoseconds \<Rightarrow> nanoseconds \<Rightarrow> Index \<Rightarrow> 'h TrajectoryPoint list \<Rightarrow> bool" where
  "check_points step tolerance stamp idx [] = True"
| "check_points step tolerance stamp idx (pt # pts) =
     (let t0 = stamp;
          ref = (idx * word_of_int step + word_of_int t0 :: 64 word);
          dt = tolerance;
          ub = ref + word_of_int dt;
          lb = ref - word_of_int dt;
          t = time_from_start pt + t0
      in if word_of_int t < lb \<or> word_of_int t > ub then False
         else check_points step tolerance stamp (idx + 1) pts)"

definition check_new_trajectory ::
  "('h \<Rightarrow> bool) \<Rightarrow> nanoseconds \<Rightarrow> ('h, 'o, 'b, 'w) MpcController \<Rightarrow> 'h Trajectory \<Rightarrow> bool" where
  "check_new_trajectory valid_heading step s trajectory =
     (if \<not> heading_ok valid_heading trajectory then False
      else if do_interpolate (m_config s) then True
      else check_points step (sample_period_tolerance (m_config s)) (header_stamp trajectory)
             0 (points trajectory))"

subsection \<open>set\_config and apply\_config\<close>






subsection \<open>Sequences of cycles\<close>

text \<open>
  \<^verbatim>\<open>update_references\<close> over the indices of successive cycles: the states it leaves, one
  per cycle, or \<open>None\<close> when a cycle's call throws.
\<close>

fun run_cycles ::
  "('h, 'o, 'b, 'w) externals \<Rightarrow> size_t \<Rightarrow> Index list \<Rightarrow> ('h, 'o, 'b, 'w) MpcController \<Rightarrow>
   ('h, 'o, 'b, 'w) MpcController list option" where
  "run_cycles ext HORIZON [] s = Some []"
| "run_cycles ext HORIZON (i # idxs) s =
     (case update_references ext HORIZON i s of
        (Inl e, s') \<Rightarrow> None
      | (Inr cold_start, s') \<Rightarrow>
          (case run_cycles ext HORIZON idxs s' of None \<Rightarrow> None | Some ss \<Rightarrow> Some (s' # ss)))"

subsection \<open>A controller to run\<close>

text \<open>
  Concrete values for running the model: a horizon of 10 steps of 100 ms, a trajectory of
  12 points 100 ms apart stamped at 1 s, a solver whose variables are all zero. The
  functions that are parameters are instantiated by ones that return at once (\<open>quiet\<close>),
  throw at once (\<open>throwing\<close>), or, for a solver phase, return a given status and leave the
  variables alone (\<open>status_step\<close>).
\<close>

definition quiet :: "'a \<Rightarrow> ('h, 'o, 'b, 'w, 'a) member" where
  "quiet a s = (Inr a, acadoVariables s)"

definition throwing :: "('h, 'o, 'b, 'w, 'a) member" where
  "throwing s = (Inl ''indexing bug'', acadoVariables s)"

definition status_step :: "int \<Rightarrow> 'w ACADOvariables \<Rightarrow> int \<times> 'w ACADOvariables" where
  "status_step code v = (code, v)"

definition diverged_step :: "'w ACADOvariables \<Rightarrow> int \<times> 'w ACADOvariables" where
  "diverged_step v = (0, v\<lparr>var_x := (var_x v)[19 := Infinite True]\<rparr>)"

definition test_externals ::
  "bool \<Rightarrow> (unit ACADOvariables \<Rightarrow> int \<times> unit ACADOvariables) \<Rightarrow>
   (unit ACADOvariables \<Rightarrow> int \<times> unit ACADOvariables) \<Rightarrow> (unit, unit, unit, unit) externals" where
  "test_externals helpers_throw preparation feedback =
     \<lparr> advance_problem = (\<lambda>count. if helpers_throw then throwing else quiet ()),
       backfill_reference = (\<lambda>count. if helpers_throw then throwing else quiet ()),
       apply_terminal_weights = (\<lambda>idx. if helpers_throw then throwing else quiet ()),
       zero_nominal_weights = (\<lambda>start end. if helpers_throw then throwing else quiet ()),
       zero_terminal_weights = (if helpers_throw then throwing else quiet ()),
       ensure_reference_consistency = (\<lambda>horizon. quiet False),
       predict = (\<lambda>s pt dt. pt),
       to_angle = (\<lambda>h. Finite 0),
       apply_weights = (\<lambda>p w. w),
       acado_initializeNodesByForwardSimulation = (\<lambda>v. v),
       acado_preparationStep = preparation,
       acado_feedbackStep = feedback \<rparr>"

definition test_config :: "(unit, unit) Config" where
  "test_config =
     \<lparr> limits = \<lparr> longitudinal_velocity = \<lparr> limit_min = Finite 0, limit_max = Finite 35 \<rparr>,
                  acceleration = \<lparr> limit_min = Finite (- 3), limit_max = Finite 3 \<rparr>,
                  steer_angle = \<lparr> limit_min = Finite (- 1 / 3), limit_max = Finite (1 / 3) \<rparr> \<rparr>,
       vehicle_param = \<lparr> length_cg_front_axel = Finite (6 / 5), length_cg_rear_axel = Finite (3 / 2) \<rparr>,
       behavior = (),
       optimization_param = (),
       sample_period_tolerance = 1000000,
       control_lookahead_duration = 250000000,
       do_interpolate = False \<rparr>"

definition test_vars :: "unit ACADOvariables" where
  "test_vars =
     \<lparr> var_x = replicate 44 (Finite 0), var_u = replicate 20 (Finite 0),
       var_od = replicate 22 (Finite 0), var_x0 = replicate 4 (Finite 0),
       lbValues = replicate 20 (Finite 0), ubValues = replicate 20 (Finite 0),
       lbAValues = replicate 10 (Finite 0), ubAValues = replicate 10 (Finite 0),
       solver_rest = () \<rparr>"

definition test_point :: "nat \<Rightarrow> unit TrajectoryPoint" where
  "test_point i =
     \<lparr> time_from_start = int i * 100000000, point_x = Finite (real i), point_y = Finite 0,
       heading = (), longitudinal_velocity_mps = Finite 10 \<rparr>"

definition test_trajectory :: "unit Trajectory" where
  "test_trajectory = \<lparr> header_stamp = 1000000000, points = map test_point [0 ..< 12] \<rparr>"

definition test_state :: "unit State" where
  "test_state = \<lparr> state_header_stamp = 1000000000, state_state = test_point 0 \<rparr>"

definition test_controller :: "(unit, unit, unit, unit) MpcController" where
  "test_controller =
     \<lparr> m_config = test_config, m_last_reference_index = 0, base_behavior = (),
       reference_trajectory = test_trajectory, acadoVariables = test_vars \<rparr>"

text \<open>Solver variables in which every element of \<open>x\<close> and of \<open>u\<close> holds its own index.\<close>

definition ramp_vars :: "unit ACADOvariables" where
  "ramp_vars = test_vars\<lparr>var_x := map (\<lambda>i. Finite (real i)) [0 ..< 44],
                          var_u := map (\<lambda>i. Finite (real i)) [0 ..< 20]\<rparr>"

section \<open>Properties\<close>

subsection \<open>Conversions between the signed and the unsigned 64-bit type\<close>


lemma uint_of_int_nonneg: "0 \<le> v \<Longrightarrow> v < 2 ^ 64 \<Longrightarrow> uint (word_of_int v :: 64 word) = v"
  by (simp add: uint_word_of_int)

lemma uint_of_int_neg:
  assumes "- (2 ^ 63) \<le> v" "v < 0"
  shows "uint (word_of_int v :: 64 word) = v + 2 ^ 64"
proof -
  have "v mod 2 ^ 64 = (v + 2 ^ 64) mod 2 ^ 64" by simp
  also have "\<dots> = v + 2 ^ 64" using assms by (intro mod_pos_pos_trivial) auto
  finally show ?thesis by (simp add: uint_word_of_int)
qed










subsection \<open>The sample index and the interpolation parameter\<close>




subsection \<open>The interpolation example\<close>

lemma interpolate_half: "interpolate (Finite a) (Finite b) (Finite (1 / 2)) = Finite ((a + b) / 2)"
  by (simp add: interpolate_def field_simps)

lemma example_locals:
  "clamped_dt 10 100000000 250000000 = 250000000"
  "interp_count 10 100000000 250000000 = 2"
  "fractional 10 100000000 250000000 = 1 / 2"
  by (simp_all add: fractional_def interp_dt_def interp_count_def clamped_dt_def max_dt_def)

lemma velocity_index_2: "velocity_index 2 = 19"
  by (simp add: velocity_index_def ACADO_NU_def NX_def IDX_VEL_LONG_def)

text \<open>
  Claim C7. With a step of 100 ms, a horizon of 10, a lookahead of 250 ms and
  \<^verbatim>\<open>x0_time_offset = 0\<close>: the remaining time is 250 ms, \<open>count = min 2 8 = 2\<close>, the
  interpolation parameter is \<open>1 / 2\<close>, and the command's acceleration and steering angle
  are the midpoints of the control values of samples 2 and 3 (elements 4 and 6, and 5 and
  7, of \<open>u\<close>), those being finite.
\<close>

theorem interpolation_example:
  assumes look: "control_lookahead_duration cfg = 250000000"
    and lu: "8 \<le> length (var_u vars)" and lx: "20 \<le> length (var_x vars)"
    and a2: "var_u vars ! 4 = Finite a2" and d2: "var_u vars ! 5 = Finite d2"
    and a3: "var_u vars ! 6 = Finite a3" and d3: "var_u vars ! 7 = Finite d3"
  shows "clamped_dt 10 100000000 (control_lookahead_duration cfg - 0) = 250000000 \<and>
         interp_count 10 100000000 (control_lookahead_duration cfg - 0) = min 2 8 \<and>
         fractional 10 100000000 (control_lookahead_duration cfg - 0) = 1 / 2 \<and>
         interpolated_command 10 100000000 cfg vars 0 =
           Inr \<lparr> long_accel_mps2 = Finite ((a2 + a3) / 2),
                 front_wheel_angle_rad = Finite ((d2 + d3) / 2),
                 velocity_mps = var_x vars ! 19,
                 rear_wheel_angle_rad = Finite 0 \<rparr>"
proof -
  have r4: "read_at (var_u vars) 4 = Inr (Finite a2)" using lu a2 by (simp add: read_at_def)
  have r5: "read_at (var_u vars) 5 = Inr (Finite d2)" using lu d2 by (simp add: read_at_def)
  have r6: "read_at (var_u vars) 6 = Inr (Finite a3)" using lu a3 by (simp add: read_at_def)
  have r7: "read_at (var_u vars) 7 = Inr (Finite d3)" using lu d3 by (simp add: read_at_def)
  have rx: "read_at (var_x vars) 19 = Inr (var_x vars ! 19)" using lx by (simp add: read_at_def)
  have cmd: "interpolated_command 10 100000000 cfg vars 0 =
           Inr \<lparr> long_accel_mps2 = Finite ((a2 + a3) / 2),
                 front_wheel_angle_rad = Finite ((d2 + d3) / 2),
                 velocity_mps = var_x vars ! 19,
                 rear_wheel_angle_rad = Finite 0 \<rparr>"
    by (simp add: interpolated_command_def look interp_t_def ACADO_NU_def IDX_JERK_def
        IDX_WHEEL_ANGLE_RATE_def r4 r5 r6 r7 rx velocity_index_2 interpolate_half example_locals)
  show ?thesis using cmd by (simp add: look example_locals)
qed

text \<open>The example on solver variables whose elements hold their own index.\<close>

theorem interpolation_example_witness:
  "control_lookahead_duration test_config = 250000000 \<and>
   8 \<le> length (var_u ramp_vars) \<and> 20 \<le> length (var_x ramp_vars) \<and>
   var_u ramp_vars ! 4 = Finite 4 \<and> var_u ramp_vars ! 5 = Finite 5 \<and>
   var_u ramp_vars ! 6 = Finite 6 \<and> var_u ramp_vars ! 7 = Finite 7 \<and>
   interp_count 10 100000000 (control_lookahead_duration test_config - 0) = 2 \<and>
   fractional 10 100000000 (control_lookahead_duration test_config - 0) = 1 / 2 \<and>
   interpolated_command 10 100000000 test_config ramp_vars 0 =
     Inr \<lparr> long_accel_mps2 = Finite 5, front_wheel_angle_rad = Finite 6,
           velocity_mps = Finite 19, rear_wheel_angle_rad = Finite 0 \<rparr>"
proof -
  have look: "control_lookahead_duration test_config = 250000000" by (simp add: test_config_def)
  have lu: "8 \<le> length (var_u ramp_vars)" by (simp add: ramp_vars_def)
  have lx: "20 \<le> length (var_x ramp_vars)" by (simp add: ramp_vars_def)
  have u4: "var_u ramp_vars ! 4 = Finite 4" by (simp add: ramp_vars_def)
  have u5: "var_u ramp_vars ! 5 = Finite 5" by (simp add: ramp_vars_def)
  have u6: "var_u ramp_vars ! 6 = Finite 6" by (simp add: ramp_vars_def)
  have u7: "var_u ramp_vars ! 7 = Finite 7" by (simp add: ramp_vars_def)
  have x19: "var_x ramp_vars ! 19 = Finite 19" by (simp add: ramp_vars_def)
  from interpolation_example [OF look lu lx u4 u5 u6 u7] look lu lx u4 u5 u6 u7 x19
  show ?thesis by simp
qed

subsection \<open>The velocity of the command\<close>

lemma velocity_index_eq:
  assumes "0 \<le> count" and "count < 2 ^ 60"
  shows "velocity_index count = (count * 2) * 4 + 3"
proof -
  have "(word_of_int (count * ACADO_NU) :: size_t) * NX + word_of_nat IDX_VEL_LONG
      = word_of_int ((count * 2) * 4 + 3)"
    by (simp add: ACADO_NU_def NX_def IDX_VEL_LONG_def)
  moreover have "uint (word_of_int ((count * 2) * 4 + 3) :: 64 word) = (count * 2) * 4 + 3"
    using assms by (intro uint_of_int_nonneg) simp_all
  ultimately show ?thesis by (simp only: velocity_index_def)
qed

lemma interpolated_command_Inr:
  assumes "interpolated_command HORIZON step cfg vars offset = Inr cmd"
  shows "isfinite (long_accel_mps2 cmd) \<and> isfinite (front_wheel_angle_rad cmd) \<and>
         rear_wheel_angle_rad cmd = Finite 0 \<and>
         read_at (var_x vars) (velocity_index (interp_count HORIZON step (control_lookahead_duration cfg - offset)))
           = Inr (velocity_mps cmd)"
  using assms
  by (auto simp add: interpolated_command_def Let_def split: sum.splits if_splits)

text \<open>
  Claim C2 has the velocity read at element \<open>count * NX + IDX_VEL_LONG\<close> of the state
  array. The code reads it at \<^verbatim>\<open>(idx * NX) + IDX_VEL_LONG\<close>, where \<^verbatim>\<open>idx\<close> is the offset
  \<open>count * ACADO_NU\<close> into the control array: element \<open>count * 2 * 4 + 3\<close>, the
  velocity of state \<open>2 * count\<close>.
\<close>

theorem velocity_read_uses_control_offset:
  assumes run: "interpolated_command HORIZON step cfg vars offset = Inr cmd"
    and count: "interp_count HORIZON step (control_lookahead_duration cfg - offset) = count"
    and range: "0 \<le> count" "count < 2 ^ 60"
  shows "velocity_mps cmd = var_x vars ! nat ((count * ACADO_NU) * uint NX + int IDX_VEL_LONG)"
proof -
  from interpolated_command_Inr [OF run] count
  have "read_at (var_x vars) (velocity_index count) = Inr (velocity_mps cmd)" by simp
  then have "velocity_mps cmd = var_x vars ! nat (velocity_index count)"
    by (simp add: read_at_def split: if_splits)
  then show ?thesis using velocity_index_eq [OF range]
    by (simp add: ACADO_NU_def NX_def IDX_VEL_LONG_def)
qed

text \<open>
  One step ahead (a lookahead of 100 ms, \<^verbatim>\<open>x0_time_offset = 0\<close>) \<open>count\<close> is 1: the
  command's velocity is element 11 of \<open>x\<close>, the claim's is element 7.
\<close>

theorem velocity_read_one_step_ahead:
  "interp_count 10 100000000
     (control_lookahead_duration (test_config\<lparr>control_lookahead_duration := 100000000\<rparr>) - 0) = 1 \<and>
   interpolated_command 10 100000000 (test_config\<lparr>control_lookahead_duration := 100000000\<rparr>) ramp_vars 0
     = Inr \<lparr> long_accel_mps2 = Finite 2, front_wheel_angle_rad = Finite 3,
             velocity_mps = Finite 11, rear_wheel_angle_rad = Finite 0 \<rparr> \<and>
   var_x ramp_vars ! nat ((1 * ACADO_NU) * uint NX + int IDX_VEL_LONG) = Finite 11 \<and>
   var_x ramp_vars ! nat (1 * uint NX + int IDX_VEL_LONG) = Finite 7"
proof -
  let ?cfg = "test_config\<lparr>control_lookahead_duration := 100000000\<rparr>"
  let ?cmd = "\<lparr> long_accel_mps2 = Finite 2, front_wheel_angle_rad = Finite 3,
             velocity_mps = Finite 11, rear_wheel_angle_rad = Finite 0 \<rparr>"
  have count: "interp_count 10 100000000 (control_lookahead_duration ?cfg - 0) = 1"
    by code_simp
  have run: "interpolated_command 10 100000000 ?cfg ramp_vars 0 = Inr ?cmd"
    by code_simp
  have x7: "var_x ramp_vars ! nat (1 * uint NX + int IDX_VEL_LONG) = Finite 7"
    by (simp add: ramp_vars_def NX_def IDX_VEL_LONG_def)
  from velocity_read_uses_control_offset [OF run count]
  have "velocity_mps ?cmd = var_x ramp_vars ! nat ((1 * ACADO_NU) * uint NX + int IDX_VEL_LONG)"
    by simp
  then show ?thesis using count run x7 by simp
qed

subsection \<open>Errors and the state they leave\<close>

lemma bindE_Inr:
  "bindE m f s = (Inr b, s') \<longleftrightarrow> (\<exists>a s1. m s = (Inr a, s1) \<and> f a s1 = (Inr b, s'))"
  by (auto simp add: bindE_def split: prod.splits sum.splits)


lemma update_references_cold: "update_references ext HORIZON 0 s = (Inr True, s)"
  by (simp add: update_references_def)

lemma update_references_returns:
  assumes "update_references ext HORIZON i s = (Inr c, s')" and "i \<noteq> 0"
  shows "c = False \<and> s' = s\<lparr>m_last_reference_index := i, acadoVariables := acadoVariables s'\<rparr>"
  using assms
  by (auto simp add: update_references_def Let_def bindE_def call_def
      split: prod.splits sum.splits if_splits)










subsection \<open>What the returned command guarantees\<close>

text \<open>
  Claim C1, as the code has it. A command that \<^verbatim>\<open>compute_command_impl\<close> returns has a
  finite longitudinal acceleration and a finite front wheel angle, the two values
  \<^verbatim>\<open>interpolated_command\<close> checks, and a rear wheel angle of zero; otherwise the call
  fails. The velocity is copied from the solver's state array and is not checked.
\<close>

theorem command_checked_fields_finite:
  assumes "compute_command_impl ext HORIZON step current_idx st s = (Inr cmd, s')"
  shows "isfinite (long_accel_mps2 cmd) \<and> isfinite (front_wheel_angle_rad cmd) \<and>
         rear_wheel_angle_rad cmd = Finite 0"
proof -
  from assms obtain dt where "interpolated_command HORIZON step (m_config s') (acadoVariables s') dt = Inr cmd"
    unfolding compute_command_impl_def Let_def bindE_Inr by auto
  then show ?thesis using interpolated_command_Inr by blast
qed

text \<open>A cold-start cycle on the test controller whose solver returns status 0 twice.\<close>

theorem command_checked_fields_finite_witness:
  "fst (compute_command_impl (test_externals False (status_step 0) (status_step 0)) 10 100000000 0
      test_state test_controller) =
     Inr \<lparr> long_accel_mps2 = Finite 0, front_wheel_angle_rad = Finite 0,
           velocity_mps = Finite 0, rear_wheel_angle_rad = Finite 0 \<rparr> \<and>
   isfinite (long_accel_mps2 \<lparr> long_accel_mps2 = Finite 0, front_wheel_angle_rad = Finite 0,
           velocity_mps = Finite 0, rear_wheel_angle_rad = Finite 0 \<rparr>) \<and>
   isfinite (front_wheel_angle_rad \<lparr> long_accel_mps2 = Finite 0, front_wheel_angle_rad = Finite 0,
           velocity_mps = Finite 0, rear_wheel_angle_rad = Finite 0 \<rparr>)"
proof -
  let ?run = "compute_command_impl (test_externals False (status_step 0) (status_step 0)) 10
      100000000 0 test_state test_controller"
  let ?cmd = "\<lparr> long_accel_mps2 = Finite 0, front_wheel_angle_rad = Finite 0,
           velocity_mps = Finite 0, rear_wheel_angle_rad = Finite 0 \<rparr>"
  have f: "fst ?run = Inr ?cmd" by code_simp
  then have "?run = (Inr ?cmd, snd ?run)" by (simp add: prod_eq_iff)
  from command_checked_fields_finite [OF this] f show ?thesis by simp
qed

text \<open>
  Claim C1 as stated has every field of a returned command finite. On the same cycle with
  a solver whose feedback phase returns status 0 and leaves an infinite velocity in the
  state that is read (element 19 of \<open>x\<close>), the controls being finite, the command is
  returned with an infinite velocity.
\<close>

theorem command_velocity_not_checked:
  "fst (compute_command_impl (test_externals False (status_step 0) diverged_step) 10 100000000 0
      test_state test_controller) =
    Inr \<lparr> long_accel_mps2 = Finite 0, front_wheel_angle_rad = Finite 0,
          velocity_mps = Infinite True, rear_wheel_angle_rad = Finite 0 \<rparr>"
  by code_simp

subsection \<open>A solver failure after the reference window was updated\<close>



subsection \<open>What update\_references reports\<close>





subsection \<open>Cold start and the last reference index\<close>

lemma run_cycles_last_index:
  assumes "sorted (m_last_reference_index s # idxs)"
    and "run_cycles ext HORIZON idxs s = Some ss"
  shows "map m_last_reference_index ss = idxs"
  using assms
proof (induction idxs arbitrary: s ss)
  case Nil
  then show ?case by simp
next
  case (Cons i idxs)
  from Cons.prems(2) obtain c s1 ss1 where
    upd: "update_references ext HORIZON i s = (Inr c, s1)" and
    rest: "run_cycles ext HORIZON idxs s1 = Some ss1" and
    ss: "ss = s1 # ss1"
    by (auto split: prod.splits sum.splits option.splits)
  have l1: "m_last_reference_index s1 = i"
  proof (cases "i = 0")
    case True
    with upd have "s1 = s" by (simp add: update_references_cold)
    moreover from Cons.prems(1) True have "m_last_reference_index s = 0" by simp
    ultimately show ?thesis using True by simp
  next
    case False
    from update_references_returns [OF upd False]
    have "s1 = s\<lparr>m_last_reference_index := i, acadoVariables := acadoVariables s1\<rparr>" by simp
    then show ?thesis by (cases s, cases s1) simp
  qed
  from Cons.prems(1) have "sorted (i # idxs)" by simp
  with l1 have "sorted (m_last_reference_index s1 # idxs)" by simp
  from Cons.IH [OF this rest] l1 ss show ?case by simp
qed

text \<open>
  Claim C4. \<^verbatim>\<open>update_references\<close> returns \<open>True\<close> exactly when \<open>current_idx = 0\<close>, and
  then nothing was advanced or backfilled: the state is unchanged. A call with another
  index that returns has set \<^verbatim>\<open>m_last_reference_index\<close> to it. So over cycles whose
  indices do not decrease, starting at or above the index held before (0 in a controller
  just constructed), each of whose calls returns, \<^verbatim>\<open>m_last_reference_index\<close> after every
  cycle is that cycle's index.
\<close>

theorem cold_start_iff_index_zero:
  "((\<exists>s'. update_references ext HORIZON i s = (Inr True, s')) \<longleftrightarrow> i = 0) \<and>
   (update_references ext HORIZON 0 s = (Inr True, s)) \<and>
   (\<forall>c s'. i \<noteq> 0 \<and> update_references ext HORIZON i s = (Inr c, s') \<longrightarrow>
      m_last_reference_index s' = i) \<and>
   (\<forall>ss. sorted (m_last_reference_index s # idxs) \<and> run_cycles ext HORIZON idxs s = Some ss \<longrightarrow>
      map m_last_reference_index ss = idxs)"
proof -
  have a: "(\<exists>s'. update_references ext HORIZON i s = (Inr True, s')) \<longleftrightarrow> i = 0"
  proof
    assume "\<exists>s'. update_references ext HORIZON i s = (Inr True, s')"
    then obtain s' where u: "update_references ext HORIZON i s = (Inr True, s')" ..
    show "i = 0"
    proof (rule ccontr)
      assume "i \<noteq> 0"
      from update_references_returns [OF u this] show False by simp
    qed
  next
    assume "i = 0"
    then show "\<exists>s'. update_references ext HORIZON i s = (Inr True, s')"
      using update_references_cold by blast
  qed
  have c: "\<forall>c s'. i \<noteq> 0 \<and> update_references ext HORIZON i s = (Inr c, s') \<longrightarrow>
      m_last_reference_index s' = i"
  proof (intro allI impI)
    fix c s' assume h: "i \<noteq> 0 \<and> update_references ext HORIZON i s = (Inr c, s')"
    then have "s' = s\<lparr>m_last_reference_index := i, acadoVariables := acadoVariables s'\<rparr>"
      using update_references_returns by blast
    then show "m_last_reference_index s' = i" by (cases s, cases s') simp
  qed
  from a c update_references_cold run_cycles_last_index show ?thesis by blast
qed

text \<open>The indices 0, 0, 1, 3 on the test controller, with helper functions that return.\<close>

theorem cold_start_iff_index_zero_witness:
  "(1 :: Index) \<noteq> 0 \<and>
   sorted (m_last_reference_index test_controller # [0, 0, 1, 3]) \<and>
   run_cycles (test_externals False (status_step 0) (status_step 0)) 10 [0, 0, 1, 3] test_controller
     \<noteq> None \<and>
   map m_last_reference_index
     (the (run_cycles (test_externals False (status_step 0) (status_step 0)) 10 [0, 0, 1, 3]
        test_controller)) = [0, 0, 1, 3] \<and>
   fst (update_references (test_externals False (status_step 0) (status_step 0)) 10 1 test_controller)
     = Inr False \<and>
   m_last_reference_index
     (snd (update_references (test_externals False (status_step 0) (status_step 0)) 10 1
        test_controller)) = 1"
proof -
  let ?ext = "test_externals False (status_step 0) (status_step 0)"
  let ?run = "run_cycles ?ext 10 [0, 0, 1, 3] test_controller"
  let ?upd = "update_references ?ext 10 1 test_controller"
  have w: "(1 :: Index) \<noteq> 0" by simp
  have s: "sorted (m_last_reference_index test_controller # [0, 0, 1, 3])"
    by (simp add: test_controller_def)
  have n: "?run \<noteq> None" by code_simp
  then have r: "?run = Some (the ?run)" by simp
  have f: "fst ?upd = Inr False" by code_simp
  then have u: "?upd = (Inr False, snd ?upd)" by (simp add: prod_eq_iff)
  note t = cold_start_iff_index_zero [of ?ext 10 1 test_controller "[0, 0, 1, 3]"]
  from t w u have "m_last_reference_index (snd ?upd) = 1" by blast
  moreover from t s r have "map m_last_reference_index (the ?run) = [0, 0, 1, 3]" by blast
  ultimately show ?thesis using w s n f by simp
qed

subsection \<open>Replacing the configuration twice\<close>

lemma fold_rows_length [simp]:
  "length (fold (\<lambda>i xs. xs[i * 2 := a, Suc (i * 2) := b]) js xs) = length xs"
  by (induction js arbitrary: xs) simp_all

lemma fold_row_length [simp]:
  "length (fold (\<lambda>i xs. xs[i := a]) js xs) = length xs"
  by (induction js arbitrary: xs) simp_all












subsection \<open>The trajectory validator\<close>

text \<open>
  What the validator decides without looking at time stamps: a trajectory with an invalid
  heading is rejected, and with interpolation enabled a trajectory whose headings are valid
  is accepted.
\<close>

lemma check_new_trajectory_heading:
  "\<not> heading_ok valid_heading trajectory \<Longrightarrow>
     \<not> check_new_trajectory valid_heading step s trajectory"
  by (simp add: check_new_trajectory_def)

lemma check_new_trajectory_interpolating:
  "heading_ok valid_heading trajectory \<Longrightarrow> do_interpolate (m_config s) \<Longrightarrow>
     check_new_trajectory valid_heading step s trajectory"
  by (simp add: check_new_trajectory_def)

text \<open>
  The window test of one point, and of the loop, where the unsigned bounds do not wrap: a
  tolerance that is not negative and not above the header's stamp, and a last upper bound
  below \<open>2 ^ 63\<close>. There the loop accepts exactly the trajectories whose points all lie
  within the tolerance of \<open>index * step + stamp\<close>.
\<close>

lemma check_point_no_wrap:
  fixes idx :: Index
  assumes step: "0 < step" and tol: "0 \<le> tol" and low: "tol \<le> stamp"
    and high: "stamp + uint idx * step + tol < 2 ^ 63"
    and t: "in_int64 t"
  shows "((word_of_int t :: 64 word) < (idx * word_of_int step + word_of_int stamp) - word_of_int tol \<or>
          (word_of_int t :: 64 word) > (idx * word_of_int step + word_of_int stamp) + word_of_int tol)
         \<longleftrightarrow> \<not> \<bar>t - (uint idx * step + stamp)\<bar> \<le> tol"
proof -
  let ?R = "uint idx * step + stamp"
  have i0: "0 \<le> uint idx * step" using step by simp
  have R0: "0 \<le> ?R - tol" using i0 low by linarith
  have R1: "?R + tol < 2 ^ 64" using high by simp
  have lb: "(idx * word_of_int step + word_of_int stamp) - word_of_int tol
      = (word_of_int (?R - tol) :: 64 word)" by simp
  have ub: "(idx * word_of_int step + word_of_int stamp) + word_of_int tol
      = (word_of_int (?R + tol) :: 64 word)" by simp
  have ulb: "uint (word_of_int (?R - tol) :: 64 word) = ?R - tol"
    using R0 R1 tol by (intro uint_of_int_nonneg) linarith+
  have uub: "uint (word_of_int (?R + tol) :: 64 word) = ?R + tol"
    using R0 R1 tol by (intro uint_of_int_nonneg) linarith+
  show ?thesis
  proof (cases "0 \<le> t")
    case True
    then have "uint (word_of_int t :: 64 word) = t"
      using t by (intro uint_of_int_nonneg) (simp_all add: in_int64_def)
    then show ?thesis
      unfolding lb ub word_less_def ulb uub by (simp add: abs_le_iff) linarith
  next
    case False
    then have "uint (word_of_int t :: 64 word) = t + 2 ^ 64"
      using t by (intro uint_of_int_neg) (simp_all add: in_int64_def)
    moreover have "?R + tol < t + 2 ^ 64" using high t by (simp add: in_int64_def)
    moreover have "\<not> \<bar>t - ?R\<bar> \<le> tol" using False R0 by linarith
    ultimately show ?thesis
      unfolding lb ub word_less_def ulb uub by simp
  qed
qed

lemma check_points_no_wrap:
  fixes idx :: Index
  assumes step: "0 < step" and tol: "0 \<le> tol" and low: "tol \<le> stamp"
    and high: "stamp + (uint idx + int (length pts)) * step + tol < 2 ^ 63"
    and pts: "\<forall>pt \<in> set pts. in_int64 (time_from_start pt + stamp)"
  shows "check_points step tol stamp idx pts \<longleftrightarrow>
           (\<forall>j < length pts.
              \<bar>(stamp + time_from_start (pts ! j)) - ((uint idx + int j) * step + stamp)\<bar> \<le> tol)"
  using high pts
proof (induction pts arbitrary: idx)
  case Nil
  then show ?case by simp
next
  case (Cons pt pts)
  have len: "uint idx + int (length (pt # pts)) = uint idx + 1 + int (length pts)" by simp
  have bound: "(uint idx + 1 + int (length pts)) * step < 2 ^ 63"
    using Cons.prems(1) tol low unfolding len by linarith
  have "(uint idx + 1 + int (length pts)) * 1 \<le> (uint idx + 1 + int (length pts)) * step"
    by (rule mult_left_mono) (use step in simp_all)
  then have "uint idx + 1 + int (length pts) < 2 ^ 63" using bound by simp
  then have small: "uint idx + 1 < 2 ^ 63" by simp
  have succ: "uint (idx + 1) = uint idx + 1"
  proof -
    have "uint idx + uint (1 :: 64 word) < 2 ^ LENGTH(64)" using small by simp
    then have "uint (idx + 1) = uint idx + uint (1 :: 64 word)" by (simp only: uint_add_lem)
    then show ?thesis by simp
  qed
  have "uint idx * step \<le> (uint idx + 1 + int (length pts)) * step"
    using step by (simp add: mult_right_mono)
  then have high0: "stamp + uint idx * step + tol < 2 ^ 63"
    using Cons.prems(1) unfolding len by linarith
  have t: "in_int64 (time_from_start pt + stamp)" using Cons.prems(2) by simp
  note here = check_point_no_wrap [OF step tol low high0 t]
  have high1: "stamp + (uint (idx + 1) + int (length pts)) * step + tol < 2 ^ 63"
    using Cons.prems(1) unfolding len succ by simp
  have rest: "check_points step tol stamp (idx + 1) pts \<longleftrightarrow>
      (\<forall>j < length pts.
         \<bar>(stamp + time_from_start (pts ! j)) - ((uint (idx + 1) + int j) * step + stamp)\<bar> \<le> tol)"
    using Cons.IH [OF high1] Cons.prems(2) by simp
  have all: "(\<forall>j < length (pt # pts).
         \<bar>(stamp + time_from_start ((pt # pts) ! j)) - ((uint idx + int j) * step + stamp)\<bar> \<le> tol)
     \<longleftrightarrow> \<bar>(stamp + time_from_start pt) - (uint idx * step + stamp)\<bar> \<le> tol \<and>
       (\<forall>j < length pts.
         \<bar>(stamp + time_from_start (pts ! j)) - ((uint idx + 1 + int j) * step + stamp)\<bar> \<le> tol)"
    by (simp add: All_less_Suc2 add.assoc)
  show ?case
    unfolding all using here rest unfolding succ
    by (simp add: Let_def add.commute)
qed

lemma check_new_trajectory_no_wrap:
  assumes "0 < step" and "0 \<le> sample_period_tolerance (m_config s)"
    and "sample_period_tolerance (m_config s) \<le> header_stamp trajectory"
    and "header_stamp trajectory + int (length (points trajectory)) * step
           + sample_period_tolerance (m_config s) < 2 ^ 63"
    and "\<forall>pt \<in> set (points trajectory). in_int64 (time_from_start pt + header_stamp trajectory)"
  shows "check_new_trajectory valid_heading step s trajectory \<longleftrightarrow>
     heading_ok valid_heading trajectory \<and>
     (do_interpolate (m_config s) \<or>
      (\<forall>j < length (points trajectory).
         \<bar>(header_stamp trajectory + time_from_start (points trajectory ! j))
            - (int j * step + header_stamp trajectory)\<bar> \<le> sample_period_tolerance (m_config s)))"
  using check_points_no_wrap [of step "sample_period_tolerance (m_config s)"
      "header_stamp trajectory" 0 "points trajectory"] assms
  by (simp add: check_new_trajectory_def)

text \<open>
  Claim C8 has a trajectory accepted, with interpolation disabled, exactly when every point
  lies within the tolerance of its nominal time. A trajectory stamped at time 0 whose only
  point has a time offset of 0 lies within the tolerance of 1 ms; its lower bound
  \<open>0 - tolerance\<close> wraps in the unsigned type to a value above the point's time, and the
  trajectory is rejected. The same point under a header stamped at 1 s is accepted.
\<close>

theorem zero_stamp_trajectory_rejected:
  "check_new_trajectory (\<lambda>h. True) 100000000 test_controller
     \<lparr> header_stamp = 0, points = [test_point 0] \<rparr> = False \<and>
   \<bar>(header_stamp \<lparr> header_stamp = 0, points = [test_point 0] \<rparr> + time_from_start (test_point 0))
      - (0 * 100000000 + header_stamp \<lparr> header_stamp = 0, points = [test_point 0] \<rparr>)\<bar>
     \<le> sample_period_tolerance (m_config test_controller) \<and>
   check_new_trajectory (\<lambda>h. True) 100000000 test_controller
     \<lparr> header_stamp = 1000000000, points = [test_point 0] \<rparr> = True"
  by code_simp

end
